theory Spec2Isabelle
  imports Complex_Main
begin

section \<open>The Ryo language definition for highlight.js\<close>

text \<open>
  The file \<^verbatim>\<open>docs/extra/ryo-highlight.js\<close> defines one function, \<^verbatim>\<open>ryo(hljs)\<close>, which
  builds the mode objects of the Ryo grammar and returns the language definition. The
  objects are JavaScript objects: they are shared by reference, one of them is mutated
  after its construction (\<^verbatim>\<open>F_STRING_INTERPOLATION.contains.push(...)\<close>) and the result is
  cyclic. The model therefore keeps the objects in an explicit store and refers to them by
  address.
\<close>

subsection \<open>Patterns, keyword tables and mode objects\<close>

text \<open>
  A pattern is kept as its source text. \<open>Regex\<close> is a regular expression literal
  \<^verbatim>\<open>/.../\<close>, \<open>Str\<close> a string handed to highlight.js as a pattern, \<open>Parts\<close> an array of
  regular expression literals (the multi-part \<^verbatim>\<open>begin\<close> of a definition rule).
\<close>

datatype pattern = Regex string | Str string | Parts "string list"

text \<open>The backslash cannot be written inside a string literal; it is character 0x5C.\<close>

definition backslash :: string where
  "backslash = [CHR 0x5C]"

record keywords_obj =
  kw_pattern :: pattern
  keyword :: "string list"
  literal :: "string list"
  type :: "string list"
  built_in :: "string list"

type_synonym ref = nat

text \<open>
  A mode object. Every field of the source's object literals is optional; a field that an
  object literal leaves out is \<open>None\<close> (for \<^verbatim>\<open>contains\<close>, \<^verbatim>\<open>aliases\<close>, \<^verbatim>\<open>variants\<close> and
  \<^verbatim>\<open>beginScope\<close>: the empty list). \<open>contains\<close> holds references to other mode objects. A
  variant of the source is an object with a \<^verbatim>\<open>begin\<close> only, so \<open>variants\<close> lists the begin
  patterns. The language definition that \<^verbatim>\<open>ryo\<close> returns is an object of the same kind, with
  \<^verbatim>\<open>name\<close>, \<^verbatim>\<open>aliases\<close> and \<^verbatim>\<open>illegal\<close> set.
\<close>

record mode =
  name :: "string option"
  aliases :: "string list"
  scope :: "string option"
  begin_pat :: "pattern option"
  end_pat :: "pattern option"
  kwds :: "keywords_obj option"
  illegal :: "pattern option"
  contains :: "ref list"
  variants :: "pattern list"
  relevance :: "rat option"
  beginScope :: "(nat \<times> string) list"
  endsParent :: "bool option"

definition obj :: mode where
  "obj = \<lparr> name = None, aliases = [], scope = None, begin_pat = None, end_pat = None,
           kwds = None, illegal = None, contains = [], variants = [], relevance = None,
           beginScope = [], endsParent = None \<rparr>"

subsection \<open>The object store\<close>

type_synonym heap = "mode list"

text \<open>An object literal allocates a fresh object: its address is the next free one.\<close>

definition alloc :: "mode \<Rightarrow> heap \<Rightarrow> ref \<times> heap" where
  "alloc m h = (length h, h @ [m])"

text \<open>\<^verbatim>\<open>r.contains.push(x1, ..., xn)\<close> appends to the \<^verbatim>\<open>contains\<close> array of the object at \<open>r\<close>.\<close>

definition contains_push :: "ref \<Rightarrow> ref list \<Rightarrow> heap \<Rightarrow> heap" where
  "contains_push r xs h = h[r := (h ! r)\<lparr>contains := contains (h ! r) @ xs\<rparr>]"

text \<open>
  What \<^verbatim>\<open>ryo\<close> uses of the highlight.js instance it is given: three mode objects of the
  library, which live in the store before \<^verbatim>\<open>ryo\<close> runs, and the function \<^verbatim>\<open>hljs.COMMENT\<close>,
  which builds a comment mode. The library is not part of this repository, so the
  instance is a parameter: \<open>COMMENT\<close> may be any function that returns a reference and a
  store.
\<close>

record hljs =
  BACKSLASH_ESCAPE :: ref
  QUOTE_STRING_MODE :: ref
  APOS_STRING_MODE :: ref
  COMMENT :: "string \<Rightarrow> string \<Rightarrow> heap \<Rightarrow> ref \<times> heap"

subsection \<open>The function \<^verbatim>\<open>ryo\<close>\<close>

definition KEYWORDS :: keywords_obj where
  "KEYWORDS = \<lparr>
     kw_pattern = Regex ''[a-zA-Z_][a-zA-Z0-9_]*'',
     keyword = [''and'', ''as'', ''break'', ''case'', ''catch'', ''continue'', ''elif'',
       ''else'', ''enum'', ''error'', ''fn'', ''for'', ''if'', ''impl'', ''import'', ''in'',
       ''match'', ''move'', ''mut'', ''not'', ''or'', ''orelse'', ''package'', ''pub'',
       ''return'', ''select'', ''struct'', ''trait'', ''try''],
     literal = [''true'', ''false'', ''none''],
     type = [''list'', ''map'', ''shared'', ''weak'', ''bool'', ''char'', ''f32'', ''f64'',
       ''float'', ''i16'', ''i32'', ''i64'', ''i8'', ''int'', ''isize'', ''str'', ''u16'',
       ''u32'', ''u64'', ''u8'', ''uint'', ''usize'', ''void''],
     built_in = [''self'', ''panic'', ''print'', ''println''] \<rparr>"

definition DOC_COMMENT :: mode where
  "DOC_COMMENT = obj\<lparr> scope := Some ''doctag'', begin_pat := Some (Regex ''#:''),
     end_pat := Some (Regex ''$''), relevance := Some 10 \<rparr>"

definition F_STRING_INTERPOLATION :: mode where
  \<open>F_STRING_INTERPOLATION = obj\<lparr> scope := Some ''subst'', begin_pat := Some (Regex (backslash @ ''{'')),
     end_pat := Some (Regex (backslash @ ''}'')), kwds := Some KEYWORDS, contains := [] \<rparr>\<close>

definition F_STRING :: "hljs \<Rightarrow> ref \<Rightarrow> mode" where
  \<open>F_STRING hl interpolation = obj\<lparr> scope := Some ''string'', begin_pat := Some (Regex ''f"''),
     end_pat := Some (Regex ''"''), contains := [BACKSLASH_ESCAPE hl, interpolation] \<rparr>\<close>

definition NUMBER :: mode where
  "NUMBER = obj\<lparr> scope := Some ''number'',
     variants := [Str (backslash @ ''b(0b[01_]+)''), Str (backslash @ ''b(0o[0-7_]+)''),
       Str (backslash @ ''b(0x[a-fA-F0-9_]+)''),
       Str (backslash @ ''b('' @ backslash @ ''d['' @ backslash @ ''d_]*('' @ backslash @ ''.[0-9_]+)?([eE][+-]?[0-9_]+)?)'')],
     relevance := Some 0 \<rparr>"

definition ATTRIBUTE :: mode where
  "ATTRIBUTE = obj\<lparr> scope := Some ''meta'', begin_pat := Some (Regex (''#'' @ backslash @ ''['')),
     end_pat := Some (Regex (backslash @ '']'')) \<rparr>"

definition PASCAL_CASE_TYPE :: mode where
  "PASCAL_CASE_TYPE = obj\<lparr> scope := Some ''type'',
     begin_pat := Some (Str (backslash @ ''b[A-Z][a-zA-Z0-9_]*'')), relevance := Some 0 \<rparr>"

definition TYPE_DEF :: mode where
  "TYPE_DEF = obj\<lparr>
     begin_pat := Some (Parts [''(struct|enum|trait)'', backslash @ ''s+'', ''[A-Z_][a-zA-Z0-9_]*'']),
     beginScope := [(1, ''keyword''), (3, ''title.class'')] \<rparr>"

definition FUNCTION_PARAMS :: "ref \<Rightarrow> ref \<Rightarrow> mode" where
  "FUNCTION_PARAMS comment pascal = obj\<lparr> begin_pat := Some (Regex (backslash @ ''('')),
     end_pat := Some (Regex (backslash @ '')'')), kwds := Some KEYWORDS,
     contains := [comment, pascal] \<rparr>"

definition FUNCTION_RETURN :: "ref \<Rightarrow> mode" where
  "FUNCTION_RETURN pascal = obj\<lparr> begin_pat := Some (Regex ''->''), endsParent := Some False,
     contains := [pascal] \<rparr>"

definition FUNCTION_DEF :: "ref \<Rightarrow> ref \<Rightarrow> mode" where
  "FUNCTION_DEF params ret = obj\<lparr>
     begin_pat := Some (Parts [''fn'', backslash @ ''s+'', ''[a-zA-Z_][a-zA-Z0-9_]*'']),
     beginScope := [(1, ''keyword''), (3, ''title.function'')],
     relevance := Some 0, contains := [params, ret] \<rparr>"

definition IMPL_DEF :: "ref \<Rightarrow> ref \<Rightarrow> mode" where
  "IMPL_DEF comment pascal = obj\<lparr> begin_pat := Some (Regex (''impl'' @ backslash @ ''b'')),
     end_pat := Some (Regex '':''), kwds := Some KEYWORDS, contains := [comment, pascal],
     relevance := Some 10 \<rparr>"

definition PREFIXED_TYPE :: "ref \<Rightarrow> mode" where
  "PREFIXED_TYPE pascal = obj\<lparr>
     begin_pat := Some (Regex (''(&mut'' @ backslash @ ''s*|&'' @ backslash @ ''s*|!|'' @ backslash @ ''?)'' @ backslash @ ''s*'')),
     kwds := Some KEYWORDS, contains := [pascal], relevance := Some (3 / 2) \<rparr>"

text \<open>
  The body of \<^verbatim>\<open>ryo\<close>, statement by statement, in the source's order. Every object literal is
  an allocation; the anonymous objects inside \<^verbatim>\<open>FUNCTION_DEF.contains\<close> are allocated before
  the object that holds them. The result is the returned language definition and the store.
\<close>

definition ryo :: "hljs \<Rightarrow> heap \<Rightarrow> mode \<times> heap" where
  "ryo hl h0 =
    (let (doc_comment, h1) = alloc DOC_COMMENT h0;
         (comment, h2) = COMMENT hl ''#'' ''$'' h1;
         (f_string_interpolation, h3) = alloc F_STRING_INTERPOLATION h2;
         (f_string, h4) = alloc (F_STRING hl f_string_interpolation) h3;
         (number, h5) = alloc NUMBER h4;
         h6 = contains_push f_string_interpolation
                [f_string, QUOTE_STRING_MODE hl, number] h5;
         (attribute, h7) = alloc ATTRIBUTE h6;
         (pascal_case_type, h8) = alloc PASCAL_CASE_TYPE h7;
         (type_def, h9) = alloc TYPE_DEF h8;
         (params, h10) = alloc (FUNCTION_PARAMS comment pascal_case_type) h9;
         (ret, h11) = alloc (FUNCTION_RETURN pascal_case_type) h10;
         (function_def, h12) = alloc (FUNCTION_DEF params ret) h11;
         (impl_def, h13) = alloc (IMPL_DEF comment pascal_case_type) h12;
         (prefixed_type, h14) = alloc (PREFIXED_TYPE pascal_case_type) h13
     in (obj\<lparr> name := Some ''Ryo'', aliases := [''ryo''], kwds := Some KEYWORDS,
               illegal := Some (Regex (''<'' @ backslash @ ''/'')),
               contains := [doc_comment, comment, attribute, f_string, QUOTE_STRING_MODE hl,
                 APOS_STRING_MODE hl, number, impl_def, function_def, type_def,
                 prefixed_type, pascal_case_type] \<rparr>,
         h14))"

subsection \<open>Nesting of modes\<close>






section \<open>How highlight.js scans a text with the definition\<close>

text \<open>
  Whether a nested f-string is recognised is decided by the scanning loop of highlight.js,
  which is not part of this repository. This section writes down the part of that loop
  that the mode objects above can exercise, after the library's \<^verbatim>\<open>compileMode\<close>,
  \<^verbatim>\<open>buildModeRegex\<close> and \<^verbatim>\<open>_highlight\<close> (\<^verbatim>\<open>processLexeme\<close>, \<^verbatim>\<open>doBeginMatch\<close>,
  \<^verbatim>\<open>doEndMatch\<close>, \<^verbatim>\<open>endOfMode\<close>), as \<^verbatim>\<open>highlightElement\<close> runs it (illegal matches are
  skipped, not raised). Mode options that no object of the model has (\<^verbatim>\<open>returnBegin\<close>,
  \<^verbatim>\<open>excludeBegin\<close>, \<^verbatim>\<open>endsWithParent\<close>, \<^verbatim>\<open>starts\<close>, callbacks, sublanguages) are left out;
  keywords, \<^verbatim>\<open>relevance\<close> and \<^verbatim>\<open>beginScope\<close> colour or score the text between matches and do
  not change which modes are opened, so they are left out as well.
\<close>

subsection \<open>Matching a pattern at a position\<close>







subsection \<open>The rules of a mode\<close>

text \<open>
  While a mode is open, the library searches with one regular expression made of
  alternatives, in this order: the \<^verbatim>\<open>begin\<close> of each mode in \<^verbatim>\<open>contains\<close>, in the order of
  the array (a mode with variants counts once for each variant, with the variant's
  \<^verbatim>\<open>begin\<close>); the \<^verbatim>\<open>end\<close> of the open mode; its \<^verbatim>\<open>illegal\<close> pattern. A mode that has no
  \<^verbatim>\<open>begin\<close> or no \<^verbatim>\<open>end\<close> gets \<^verbatim>\<open>/\B|\b/\<close>, which matches the empty string anywhere. The
  language definition itself, open when no mode is, has no \<^verbatim>\<open>end\<close>.
\<close>

datatype rule = Begin ref pattern | End pattern | Illegal pattern











subsection \<open>The loop\<close>









subsection \<open>Nested f-strings\<close>










section \<open>The MkDocs hook\<close>

text \<open>
  The second script subscribes a callback to \<^verbatim>\<open>document$\<close>, the MkDocs Material observable
  that emits once for every page load, instant navigation included. The callback uses three
  functions of the highlight.js instance: \<^verbatim>\<open>getLanguage\<close>, \<^verbatim>\<open>registerLanguage\<close> and
  \<^verbatim>\<open>highlightElement\<close>. They belong to the library, not to this repository, so they are
  parameters of the model, over any type \<open>'s\<close> of library states; \<open>listLanguages\<close> (the
  library's function of that name) observes the set of registered language names.
  \<open>getLanguage\<close> is modelled by the truth value of its result, which is all the callback
  reads.
\<close>

record ('s, 'b) hljs_registry =
  getLanguage :: "string \<Rightarrow> 's \<Rightarrow> bool"
  registerLanguage :: "string \<Rightarrow> (hljs \<Rightarrow> heap \<Rightarrow> mode \<times> heap) \<Rightarrow> 's \<Rightarrow> 's"
  highlightElement :: "'b \<Rightarrow> 's \<Rightarrow> 's"
  listLanguages :: "'s \<Rightarrow> string set"

text \<open>
  The effects of the callback are its calls into the library. The page state is the state
  of the library together with the list of the state-changing calls made so far.
\<close>

datatype 'b call = RegisterLanguage string | HighlightElement 'b

record ('s, 'b) page =
  lib :: 's
  calls :: "'b call list"

definition call_registerLanguage ::
  "('s, 'b) hljs_registry \<Rightarrow> string \<Rightarrow> (hljs \<Rightarrow> heap \<Rightarrow> mode \<times> heap) \<Rightarrow>
     ('s, 'b) page \<Rightarrow> ('s, 'b) page" where
  "call_registerLanguage api n d p =
     \<lparr> lib = registerLanguage api n d (lib p), calls = calls p @ [RegisterLanguage n] \<rparr>"

definition call_highlightElement ::
  "('s, 'b) hljs_registry \<Rightarrow> 'b \<Rightarrow> ('s, 'b) page \<Rightarrow> ('s, 'b) page" where
  "call_highlightElement api b p =
     \<lparr> lib = highlightElement api b (lib p), calls = calls p @ [HighlightElement b] \<rparr>"

text \<open>
  The callback. \<open>blocks\<close> is the result of \<^verbatim>\<open>document.querySelectorAll("pre code")\<close> at the
  time of the run: the code blocks of the page just loaded, in document order.
\<close>

definition handler :: "('s, 'b) hljs_registry \<Rightarrow> 'b list \<Rightarrow> ('s, 'b) page \<Rightarrow> ('s, 'b) page" where
  "handler api blocks p =
     (let p1 = (if \<not> getLanguage api ''ryo'' (lib p)
                then call_registerLanguage api ''ryo'' ryo p else p)
      in fold (call_highlightElement api) blocks p1)"

text \<open>
  \<^verbatim>\<open>document$.subscribe(handler)\<close>: the callback runs once for each emission; \<open>loads\<close> lists
  the code blocks of each page loaded, in the order of the loads.
\<close>

definition subscribe ::
  "('s, 'b) hljs_registry \<Rightarrow> 'b list list \<Rightarrow> ('s, 'b) page \<Rightarrow> ('s, 'b) page" where
  "subscribe api loads p = fold (handler api) loads p"

text \<open>
  What is assumed of the library: once \<^verbatim>\<open>registerLanguage("ryo", ryo)\<close> has run,
  \<^verbatim>\<open>getLanguage("ryo")\<close> is defined; and highlighting an element changes neither the result
  of \<^verbatim>\<open>getLanguage("ryo")\<close> nor the set of registered languages.
\<close>

definition registry_ok :: "('s, 'b) hljs_registry \<Rightarrow> bool" where
  "registry_ok api =
     ((\<forall>s. getLanguage api ''ryo'' (registerLanguage api ''ryo'' ryo s)) \<and>
      (\<forall>b s. getLanguage api ''ryo'' (highlightElement api b s) = getLanguage api ''ryo'' s) \<and>
      (\<forall>b s. listLanguages api (highlightElement api b s) = listLanguages api s))"

text \<open>
  A small instance of the library, for running the callback: the state is the list of
  registered names together with the list of the elements highlighted so far, in order.
\<close>

definition list_registry :: "(string list \<times> 'b list, 'b) hljs_registry" where
  "list_registry =
     \<lparr> getLanguage = (\<lambda>n s. n \<in> set (fst s)),
       registerLanguage = (\<lambda>n d s. (n # fst s, snd s)),
       highlightElement = (\<lambda>b s. (fst s, snd s @ [b])),
       listLanguages = (\<lambda>s. set (fst s)) \<rparr>"

section \<open>Properties of the language definition\<close>

text \<open>
  Claim C8. Whatever highlight.js instance and store \<^verbatim>\<open>ryo\<close> is called with, the language
  definition it returns is named "Ryo", has the single alias "ryo", has the illegal
  pattern \<^verbatim>\<open>/<\//\<close> (the three characters \<^verbatim>\<open><\/\<close>), has exactly the literals true, false and
  none, and has exactly the 29 keywords of the source, in the source's order; "as" is one
  of them, "comptime" and "unsafe" are not.
\<close>

theorem ryo_language_definition:
  "name (fst (ryo hl h0)) = Some ''Ryo'' \<and>
   aliases (fst (ryo hl h0)) = [''ryo''] \<and>
   illegal (fst (ryo hl h0)) = Some (Regex [CHR ''<'', CHR 0x5C, CHR ''/'']) \<and>
   kwds (fst (ryo hl h0)) = Some KEYWORDS \<and>
   literal KEYWORDS = [''true'', ''false'', ''none''] \<and>
   keyword KEYWORDS =
     [''and'', ''as'', ''break'', ''case'', ''catch'', ''continue'', ''elif'', ''else'',
      ''enum'', ''error'', ''fn'', ''for'', ''if'', ''impl'', ''import'', ''in'', ''match'',
      ''move'', ''mut'', ''not'', ''or'', ''orelse'', ''package'', ''pub'', ''return'',
      ''select'', ''struct'', ''trait'', ''try''] \<and>
   length (keyword KEYWORDS) = 29 \<and>
   ''as'' \<in> set (keyword KEYWORDS) \<and>
   ''comptime'' \<notin> set (keyword KEYWORDS) \<and>
   ''unsafe'' \<notin> set (keyword KEYWORDS)"
  by (simp add: ryo_def obj_def KEYWORDS_def backslash_def split_def Let_def)



subsection \<open>The scanning loop on nested f-strings\<close>
























section \<open>Properties of the MkDocs hook\<close>

lemma fold_highlight_lib:
  "lib (fold (call_highlightElement api) blocks p) = fold (highlightElement api) blocks (lib p)"
  by (induction blocks arbitrary: p) (simp_all add: call_highlightElement_def)

lemma fold_highlight_calls:
  "calls (fold (call_highlightElement api) blocks p) = calls p @ map HighlightElement blocks"
  by (induction blocks arbitrary: p) (simp_all add: call_highlightElement_def)

lemma fold_highlightElement:
  assumes "registry_ok api"
  shows "getLanguage api ''ryo'' (fold (highlightElement api) blocks s) =
           getLanguage api ''ryo'' s \<and>
         listLanguages api (fold (highlightElement api) blocks s) = listLanguages api s"
  using assms
  by (induction blocks arbitrary: s) (simp_all add: registry_ok_def)

lemma handler_lib:
  "lib (handler api blocks p) =
     fold (highlightElement api) blocks
       (if getLanguage api ''ryo'' (lib p) then lib p
        else registerLanguage api ''ryo'' ryo (lib p))"
  by (simp add: handler_def fold_highlight_lib call_registerLanguage_def)

lemma handler_calls:
  "calls (handler api blocks p) =
     calls p @ (if getLanguage api ''ryo'' (lib p) then [] else [RegisterLanguage ''ryo''])
             @ map HighlightElement blocks"
  by (simp add: handler_def fold_highlight_calls call_registerLanguage_def)

lemma handler_registered:
  assumes "registry_ok api"
  shows "getLanguage api ''ryo'' (lib (handler api blocks p))"
proof (cases "getLanguage api ''ryo'' (lib p)")
  case True
  then show ?thesis
    by (simp add: handler_lib fold_highlightElement [OF assms])
next
  case False
  from assms have "getLanguage api ''ryo'' (registerLanguage api ''ryo'' ryo (lib p))"
    by (simp add: registry_ok_def)
  with False show ?thesis
    by (simp add: handler_lib fold_highlightElement [OF assms])
qed

lemma subscribe_when_registered:
  assumes "registry_ok api" "getLanguage api ''ryo'' (lib p)"
  shows "lib (subscribe api loads p) = fold (highlightElement api) (concat loads) (lib p) \<and>
         calls (subscribe api loads p) = calls p @ map HighlightElement (concat loads)"
  using assms
proof (induction loads arbitrary: p)
  case Nil
  then show ?case by (simp add: subscribe_def)
next
  case (Cons blocks loads)
  have reg: "getLanguage api ''ryo'' (lib (handler api blocks p))"
    using Cons.prems(1) by (rule handler_registered)
  have step: "subscribe api (blocks # loads) p = subscribe api loads (handler api blocks p)"
    by (simp add: subscribe_def)
  have l: "lib (handler api blocks p) = fold (highlightElement api) blocks (lib p)"
    using Cons.prems(2) by (simp add: handler_lib)
  have c: "calls (handler api blocks p) = calls p @ map HighlightElement blocks"
    using Cons.prems(2) by (simp add: handler_calls)
  from Cons.IH [OF Cons.prems(1) reg] show ?case
    by (simp add: step l c)
qed

text \<open>
  Claim C9. Let the callback run for one page load and then for any number of further
  loads. The set of registered languages after all the runs is the set after the first
  run. A run calls \<^verbatim>\<open>registerLanguage("ryo", ryo)\<close> only if \<^verbatim>\<open>getLanguage("ryo")\<close> is not
  defined when it starts, and then exactly once, before it calls \<^verbatim>\<open>highlightElement\<close> on
  each code block of the page, in order. The runs after the first make no call but
  \<^verbatim>\<open>highlightElement\<close>, on every block of every page loaded. The calls act on the library:
  its state after a run is the state at the start, with the language registered if it was
  not, and then \<^verbatim>\<open>highlightElement\<close> applied to every block of the page in order; its
  state after the further runs is that state with \<^verbatim>\<open>highlightElement\<close> applied to every
  block of every further page, and nothing else.
\<close>

theorem handler_registers_once:
  assumes "registry_ok api"
  shows "listLanguages api (lib (subscribe api (blocks # loads) p)) =
           listLanguages api (lib (handler api blocks p)) \<and>
         calls (handler api blocks p) =
           calls p @ (if getLanguage api ''ryo'' (lib p) then [] else [RegisterLanguage ''ryo''])
                   @ map HighlightElement blocks \<and>
         calls (subscribe api (blocks # loads) p) =
           calls (handler api blocks p) @ map HighlightElement (concat loads) \<and>
         lib (handler api blocks p) =
           fold (highlightElement api) blocks
             (if getLanguage api ''ryo'' (lib p) then lib p
              else registerLanguage api ''ryo'' ryo (lib p)) \<and>
         lib (subscribe api (blocks # loads) p) =
           fold (highlightElement api) (concat loads) (lib (handler api blocks p))"
proof -
  have reg: "getLanguage api ''ryo'' (lib (handler api blocks p))"
    using assms by (rule handler_registered)
  have step: "subscribe api (blocks # loads) p = subscribe api loads (handler api blocks p)"
    by (simp add: subscribe_def)
  note rest = subscribe_when_registered [OF assms reg, of loads]
  have five: "lib (subscribe api (blocks # loads) p) =
           fold (highlightElement api) (concat loads) (lib (handler api blocks p))"
    using rest by (simp add: step)
  have three: "calls (subscribe api (blocks # loads) p) =
           calls (handler api blocks p) @ map HighlightElement (concat loads)"
    using rest by (simp add: step)
  have one: "listLanguages api (lib (subscribe api (blocks # loads) p)) =
           listLanguages api (lib (handler api blocks p))"
    by (simp add: five fold_highlightElement [OF assms])
  show ?thesis
    by (rule conjI [OF one conjI [OF handler_calls conjI [OF three conjI [OF handler_lib five]]]])
qed

lemma list_registry_ok: "registry_ok list_registry"
  by (simp add: registry_ok_def list_registry_def)

text \<open>
  The theorem at a concrete run: three page loads with the code blocks 2 and 3, then none,
  then 5, on a library with no language registered and no element highlighted.
\<close>

theorem handler_registers_once_witness:
  "registry_ok (list_registry :: (string list \<times> nat list, nat) hljs_registry) \<and>
   listLanguages (list_registry :: (string list \<times> nat list, nat) hljs_registry)
     (lib (subscribe list_registry [[2, 3], [], [5 :: nat]] \<lparr>lib = ([], []), calls = []\<rparr>)) =
     {''ryo''} \<and>
   calls (subscribe (list_registry :: (string list \<times> nat list, nat) hljs_registry)
       [[2, 3], [], [5 :: nat]] \<lparr>lib = ([], []), calls = []\<rparr>) =
     [RegisterLanguage ''ryo'', HighlightElement 2, HighlightElement 3, HighlightElement 5] \<and>
   lib (subscribe (list_registry :: (string list \<times> nat list, nat) hljs_registry)
       [[2, 3], [], [5 :: nat]] \<lparr>lib = ([], []), calls = []\<rparr>) =
     ([''ryo''], [2, 3, 5])"
proof -
  let ?api = "list_registry :: (string list \<times> nat list, nat) hljs_registry"
  let ?p = "\<lparr>lib = ([] :: string list, [] :: nat list), calls = [] :: nat call list\<rparr>"
  have ok: "registry_ok ?api"
    by (rule list_registry_ok)
  have first: "handler ?api [2, 3] ?p =
      \<lparr>lib = ([''ryo''], [2, 3]),
        calls = [RegisterLanguage ''ryo'', HighlightElement 2, HighlightElement 3]\<rparr>"
    by (simp add: handler_def call_registerLanguage_def call_highlightElement_def
        list_registry_def)
  have hl: "highlightElement ?api 5 ([''ryo''], [2, 3]) = ([''ryo''], [2, 3, 5])"
    by (simp add: list_registry_def)
  have names: "listLanguages ?api ([''ryo''], [2, 3]) = {''ryo''}"
    by (simp add: list_registry_def)
  note run = handler_registers_once [OF ok, of "[2, 3]" "[[], [5]]" ?p]
  have langs: "listLanguages ?api (lib (subscribe ?api [[2, 3], [], [5]] ?p)) = {''ryo''}"
    using run [THEN conjunct1] by (simp add: first names)
  have log: "calls (subscribe ?api [[2, 3], [], [5]] ?p) =
      [RegisterLanguage ''ryo'', HighlightElement 2, HighlightElement 3, HighlightElement 5]"
    using run [THEN conjunct2, THEN conjunct2, THEN conjunct1] by (simp add: first)
  have state: "lib (subscribe ?api [[2, 3], [], [5]] ?p) = ([''ryo''], [2, 3, 5])"
    using run [THEN conjunct2, THEN conjunct2, THEN conjunct2, THEN conjunct2]
    by (simp add: first hl)
  show ?thesis
    by (rule conjI [OF ok conjI [OF langs conjI [OF log state]]])
qed

end
